theory Spec2Isabelle
  imports Complex_Main
begin

section \<open>Chapter 11 notebook: training deep neural nets\<close>

text \<open>
  The notebook mixes Python cells, which call TensorFlow and NumPy, with markdown cells
  that state the update rules of the chapter as numbered assignments. Both are embedded
  here, in the order of the notebook.

  The markdown formulas are mathematics: their vectors are lists of reals, and an
  operation that is undefined on the reals (a division by zero, the root of a negative
  number) makes the result \<open>None\<close>. The Python cells compute on float tensors: their
  components are the values of an IEEE 754 binary format, that is, finite reals of the
  format, the two infinities and NaN, and arithmetic rounds to nearest, ties to even.
  Framework functions that the cells call are modelled by their documented behaviour, or
  taken as parameters where a cell only passes values through them; a call that can fail
  returns its error as a value.
\<close>

type_synonym tensor = "real list"

subsection \<open>Errors\<close>

text \<open>
  The exceptions that occur in the cells: the framework's \<open>NotFoundError\<close> and other
  \<open>OpError\<close>s, and Python's own \<open>ZeroDivisionError\<close>, \<open>ValueError\<close> and \<open>NameError\<close>.
\<close>

datatype error =
    NotFoundError string | ZeroDivisionError | ValueError | NameError string | OpError string

subsection \<open>Chapter setup cell: \<open>reset_graph\<close>\<close>

text \<open>
  \<^verbatim>\<open>def reset_graph(seed=42):
    tf.reset_default_graph()
    tf.set_random_seed(seed)
    np.random.seed(seed)\<close>

  The part of the process that pseudo-random draws depend on is the default graph (its
  operations and its graph-level seed) and NumPy's global generator. \<open>os_entropy\<close> is
  the generator state that NumPy would take from the operating system; it differs from
  run to run. How NumPy turns an integer seed into a generator state is a parameter,
  \<open>init_by_seed\<close>.
\<close>

record tf_graph =
  graph_ops :: "string list"
  graph_seed :: "int option"

record 'r world =
  default_graph :: tf_graph
  np_random :: 'r
  os_entropy :: 'r

text \<open>A seed is a Python value: an integer or \<open>None\<close>.\<close>

datatype seed_value = IntSeed int | NoneSeed

definition tf_reset_default_graph :: "'r world \<Rightarrow> 'r world" where
  "tf_reset_default_graph w = w\<lparr>default_graph := \<lparr>graph_ops = [], graph_seed = None\<rparr>\<rparr>"

text \<open>Without a graph-level seed the operations of the graph draw unseeded.\<close>

definition tf_set_random_seed :: "seed_value \<Rightarrow> 'r world \<Rightarrow> 'r world" where
  "tf_set_random_seed seed w =
     w\<lparr>default_graph := (default_graph w)
          \<lparr>graph_seed := (case seed of IntSeed k \<Rightarrow> Some k | NoneSeed \<Rightarrow> None)\<rparr>\<rparr>"

text \<open>
  \<open>np.random.seed\<close> accepts the integers from 0 to \<open>2\<^sup>3\<^sup>2 - 1\<close> and raises
  \<open>ValueError\<close> for any other, leaving the generator as it was; with \<open>None\<close> it seeds
  the generator from the operating system.
\<close>

definition np_random_seed :: "(int \<Rightarrow> 'r) \<Rightarrow> seed_value \<Rightarrow> 'r world \<Rightarrow> error + 'r world" where
  "np_random_seed init_by_seed seed w =
     (case seed of
        NoneSeed \<Rightarrow> Inr (w\<lparr>np_random := os_entropy w\<rparr>)
      | IntSeed k \<Rightarrow>
          if 0 \<le> k \<and> k \<le> 4294967295 then Inr (w\<lparr>np_random := init_by_seed k\<rparr>)
          else Inl ValueError)"

text \<open>
  The argument of \<open>reset_graph\<close> is optional: \<open>None\<close> stands for a call without it,
  which uses 42, and \<open>Some NoneSeed\<close> for the call \<open>reset_graph(None)\<close>. The three calls
  run in order, so an error of the last one leaves the graph reset and seeded.
\<close>

definition reset_graph ::
  "(int \<Rightarrow> 'r) \<Rightarrow> seed_value option \<Rightarrow> 'r world \<Rightarrow> error option \<times> 'r world" where
  "reset_graph init_by_seed seed_arg w =
     (let seed = (case seed_arg of None \<Rightarrow> IntSeed 42 | Some s \<Rightarrow> s);
          w1 = tf_reset_default_graph w;
          w2 = tf_set_random_seed seed w1
      in case np_random_seed init_by_seed seed w2 of
           Inl e \<Rightarrow> (Some e, w2)
         | Inr w3 \<Rightarrow> (None, w3))"

text \<open>\<open>n\<close> successive draws from a generator whose single step is \<open>gen\<close>.\<close>

fun np_draws :: "('r \<Rightarrow> real \<times> 'r) \<Rightarrow> nat \<Rightarrow> 'r \<Rightarrow> real list" where
  "np_draws gen 0 r = []"
| "np_draws gen (Suc n) r = (case gen r of (x, r') \<Rightarrow> x # np_draws gen n r')"

subsection \<open>Xavier initialization (markdown cell)\<close>

text \<open>
  Normal distribution with mean 0 and \<open>\<sigma> = sqrt (2 / (n_inputs + n_outputs))\<close>, or uniform
  distribution on \<open>[-r, +r]\<close> with \<open>r = sqrt (6 / (n_inputs + n_outputs))\<close>. Both are
  undefined for a layer without connections.
\<close>

definition xavier_sigma :: "nat \<Rightarrow> nat \<Rightarrow> real option" where
  "xavier_sigma n_inputs n_outputs =
     (if n_inputs + n_outputs = 0 then None
      else Some (sqrt (2 / (real n_inputs + real n_outputs))))"

definition xavier_r :: "nat \<Rightarrow> nat \<Rightarrow> real option" where
  "xavier_r n_inputs n_outputs =
     (if n_inputs + n_outputs = 0 then None
      else Some (sqrt (6 / (real n_inputs + real n_outputs))))"

text \<open>
  The variance of the uniform distribution on \<open>[a, b]\<close> in closed form. It is the
  integral of \<open>(x - (a + b) / 2)\<^sup>2 / (b - a)\<close> over \<open>[a, b]\<close>;
  \<open>uniform_moment_primitive\<close> is a primitive of that integrand.
\<close>

definition uniform_variance :: "real \<Rightarrow> real \<Rightarrow> real" where
  "uniform_variance a b = (b - a)\<^sup>2 / 12"

definition uniform_moment_primitive :: "real \<Rightarrow> real \<Rightarrow> real \<Rightarrow> real" where
  "uniform_moment_primitive a b x = (x - (a + b) / 2) ^ 3 / (3 * (b - a))"

subsection \<open>Float tensors\<close>

text \<open>
  A binary format has a precision \<open>prec\<close> (the number of significand bits, the hidden
  one included) and the exponents \<open>emin\<close> and \<open>emax\<close> of its smallest and largest
  normal binade. The formats of TensorFlow's float tensors:
\<close>

record float_format =
  prec :: nat
  emin :: int
  emax :: int

definition binary16 :: float_format where
  "binary16 = \<lparr>prec = 11, emin = - 14, emax = 15\<rparr>"



text \<open>
  Rounding a real to the format. The binade of \<open>x\<close> is the exponent of its leading bit,
  and not less than \<open>emin\<close> (below that are the subnormal numbers, which share the
  spacing of the smallest normal binade). The floats of a binade are the integer multiples
  of its unit in the last place, \<open>ulp\<close>. \<open>round_nearest\<close> rounds to the nearest such
  multiple, a tie to the even one, as if the exponent were unbounded above.
\<close>

definition binade :: "float_format \<Rightarrow> real \<Rightarrow> int" where
  "binade fmt x = max \<lfloor>log 2 \<bar>x\<bar>\<rfloor> (emin fmt)"

definition ulp :: "float_format \<Rightarrow> real \<Rightarrow> real" where
  "ulp fmt x = 2 powr (real_of_int (binade fmt x) - (real (prec fmt) - 1))"

definition round_even :: "real \<Rightarrow> int" where
  "round_even x =
     (if x - of_int \<lfloor>x\<rfloor> < 1 / 2 then \<lfloor>x\<rfloor>
      else if 1 / 2 < x - of_int \<lfloor>x\<rfloor> then \<lfloor>x\<rfloor> + 1
      else if even \<lfloor>x\<rfloor> then \<lfloor>x\<rfloor> else \<lfloor>x\<rfloor> + 1)"

definition round_nearest :: "float_format \<Rightarrow> real \<Rightarrow> real" where
  "round_nearest fmt x =
     (if x = 0 then 0 else of_int (round_even (x / ulp fmt x)) * ulp fmt x)"









subsection \<open>Leaky ReLU cell\<close>




subsection \<open>Batch normalization (markdown cell, steps 1 to 4)\<close>

text \<open>
  Step 1 divides by the batch size, so an empty batch has no mean. Step 3 divides by
  \<open>sqrt (\<sigma>\<^sub>B\<^sup>2 + \<epsilon>)\<close>, which is defined and nonzero exactly when \<open>\<sigma>\<^sub>B\<^sup>2 + \<epsilon> > 0\<close>.
\<close>

definition mu_B :: "tensor \<Rightarrow> real option" where
  "mu_B xs = (if xs = [] then None else Some (sum_list xs / real (length xs)))"

definition sigma2_B :: "tensor \<Rightarrow> real option" where
  "sigma2_B xs =
     (case mu_B xs of
        None \<Rightarrow> None
      | Some \<mu> \<Rightarrow> Some (sum_list (map (\<lambda>x. (x - \<mu>)\<^sup>2) xs) / real (length xs)))"

definition x_hat :: "real \<Rightarrow> tensor \<Rightarrow> tensor option" where
  "x_hat \<epsilon> xs =
     (case (mu_B xs, sigma2_B xs) of
        (Some \<mu>, Some v) \<Rightarrow>
          if v + \<epsilon> \<le> 0 then None
          else Some (map (\<lambda>x. (x - \<mu>) / sqrt (v + \<epsilon>)) xs)
      | _ \<Rightarrow> None)"

definition batch_norm :: "real \<Rightarrow> real \<Rightarrow> real \<Rightarrow> tensor \<Rightarrow> tensor option" where
  "batch_norm \<gamma> \<beta> \<epsilon> xs =
     (case x_hat \<epsilon> xs of
        None \<Rightarrow> None
      | Some xh \<Rightarrow> Some (map (\<lambda>h. \<gamma> * h + \<beta>) xh))"

subsection \<open>Gradient clipping cell\<close>





subsection \<open>The code cells as sequences of steps\<close>

text \<open>
  A cell is a sequence of statements without any \<open>try\<close>, \<open>except\<close> or \<open>raise\<close>. It is
  embedded as the list of its steps. A step takes the state and either completes or
  fails with an error, and in both cases leaves a state. \<open>run_steps\<close> runs the steps in
  order and stops at the first one that fails: that is all that Python does with an
  exception when no handler is in scope.
\<close>

type_synonym 's step = "'s \<Rightarrow> error option \<times> 's"












text \<open>The code cells of the notebook, in order.\<close>

datatype cell =
    SetupCell | ActivationCell | BatchNormCell | BatchNormPartialCell | GradientClippingCell
  | ReuseModelCell | ReuseOtherFrameworkCell | FreezeLayersCell | NesterovCell | AdaGradCell
  | RMSPropCell | AdamCell | L1LossCell | L1LayersCell | RegLossesCell | DropoutCell
  | EmptyCell1 | EmptyCell2



subsection \<open>Reusing a TensorFlow model: the session block\<close>





























subsection \<open>Vector operations of the optimizer formulas\<close>

text \<open>Scaling, sum, componentwise product \<open>\<otimes>\<close> and division by a scalar.\<close>

definition vscale :: "real \<Rightarrow> tensor \<Rightarrow> tensor" where
  "vscale c v = map (\<lambda>x. c * x) v"

definition vadd :: "tensor \<Rightarrow> tensor \<Rightarrow> tensor" where
  "vadd u v = map2 (+) u v"

definition otimes :: "tensor \<Rightarrow> tensor \<Rightarrow> tensor" where
  "otimes u v = map2 (*) u v"

definition vdiv :: "tensor \<Rightarrow> real \<Rightarrow> tensor" where
  "vdiv v c = map (\<lambda>x. x / c) v"

subsection \<open>AdaGrad (markdown cell)\<close>

text \<open>
  First equation: \<open>s \<leftarrow> s + g \<otimes> g\<close>, once per iteration with the gradient of that
  iteration. The second equation scales component \<open>i\<close> of the gradient by
  \<open>\<eta> / sqrt (s\<^sub>i + \<epsilon>)\<close>, which is defined when \<open>s\<^sub>i + \<epsilon> > 0\<close>.
\<close>

definition adagrad_accumulate :: "tensor \<Rightarrow> tensor \<Rightarrow> tensor" where
  "adagrad_accumulate s g = vadd s (otimes g g)"

fun adagrad_run :: "tensor \<Rightarrow> tensor list \<Rightarrow> tensor" where
  "adagrad_run s [] = s"
| "adagrad_run s (g # gs) = adagrad_run (adagrad_accumulate s g) gs"

definition step_size :: "real \<Rightarrow> real \<Rightarrow> real \<Rightarrow> real option" where
  "step_size \<eta> \<epsilon> s\<^sub>i = (if s\<^sub>i + \<epsilon> \<le> 0 then None else Some (\<eta> / sqrt (s\<^sub>i + \<epsilon>)))"

subsection \<open>Adam (markdown cell, steps 1 to 4)\<close>

text \<open>
  \<^enum> \<open>m \<leftarrow> \<beta>\<^sub>1 m + (1 - \<beta>\<^sub>1) g\<close>
  \<^enum> \<open>s \<leftarrow> \<beta>\<^sub>2 s + (1 - \<beta>\<^sub>2) g \<otimes> g\<close>
  \<^enum> \<open>m \<leftarrow> m / (1 - \<beta>\<^sub>1\<^sup>T)\<close>
  \<^enum> \<open>s \<leftarrow> s / (1 - \<beta>\<^sub>2\<^sup>T)\<close>

  where \<open>T\<close> is the iteration number starting at 1. All four steps assign to the two
  variables \<open>m\<close> and \<open>s\<close>, so the state of the rule is that pair, and the values that
  steps 3 and 4 store are the ones that steps 1 and 2 of the next iteration read. Step 5
  reads \<open>m\<close> and \<open>s\<close> and writes only the parameters.
\<close>

record adam_state =
  adam_m :: tensor
  adam_s :: tensor

definition adam_init :: "tensor \<Rightarrow> adam_state" where
  "adam_init g = \<lparr>adam_m = replicate (length g) 0, adam_s = replicate (length g) 0\<rparr>"

definition adam_step :: "real \<Rightarrow> real \<Rightarrow> tensor \<Rightarrow> nat \<Rightarrow> adam_state \<Rightarrow> adam_state option" where
  "adam_step \<beta>1 \<beta>2 g T st =
     (let m1 = vadd (vscale \<beta>1 (adam_m st)) (vscale (1 - \<beta>1) g);
          s1 = vadd (vscale \<beta>2 (adam_s st)) (vscale (1 - \<beta>2) (otimes g g))
      in if 1 - \<beta>1 ^ T = 0 \<or> 1 - \<beta>2 ^ T = 0 then None
         else Some \<lparr>adam_m = vdiv m1 (1 - \<beta>1 ^ T), adam_s = vdiv s1 (1 - \<beta>2 ^ T)\<rparr>)"

text \<open>Iterations \<open>1, \<dots>, T\<close> with the same gradient, from \<open>m = 0\<close> and \<open>s = 0\<close>.\<close>

fun adam_run :: "real \<Rightarrow> real \<Rightarrow> tensor \<Rightarrow> nat \<Rightarrow> adam_state option" where
  "adam_run \<beta>1 \<beta>2 g 0 = Some (adam_init g)"
| "adam_run \<beta>1 \<beta>2 g (Suc n) =
     (case adam_run \<beta>1 \<beta>2 g n of
        None \<Rightarrow> None
      | Some st \<Rightarrow> adam_step \<beta>1 \<beta>2 g (Suc n) st)"

text \<open>
  For comparison, Adam as Kingma and Ba publish it: steps 1 and 2 alone update \<open>m\<close> and
  \<open>s\<close> (\<open>adam_raw\<close>), and steps 3 and 4 compute separate estimates from them
  (\<open>adam_hat\<close>) that are not fed back.
\<close>

fun adam_raw :: "real \<Rightarrow> real \<Rightarrow> tensor \<Rightarrow> nat \<Rightarrow> adam_state" where
  "adam_raw \<beta>1 \<beta>2 g 0 = adam_init g"
| "adam_raw \<beta>1 \<beta>2 g (Suc n) =
     \<lparr>adam_m = vadd (vscale \<beta>1 (adam_m (adam_raw \<beta>1 \<beta>2 g n))) (vscale (1 - \<beta>1) g),
      adam_s = vadd (vscale \<beta>2 (adam_s (adam_raw \<beta>1 \<beta>2 g n)))
                 (vscale (1 - \<beta>2) (otimes g g))\<rparr>"

definition adam_hat :: "real \<Rightarrow> real \<Rightarrow> tensor \<Rightarrow> nat \<Rightarrow> adam_state option" where
  "adam_hat \<beta>1 \<beta>2 g T =
     (if 1 - \<beta>1 ^ T = 0 \<or> 1 - \<beta>2 ^ T = 0 then None
      else Some \<lparr>adam_m = vdiv (adam_m (adam_raw \<beta>1 \<beta>2 g T)) (1 - \<beta>1 ^ T),
                 adam_s = vdiv (adam_s (adam_raw \<beta>1 \<beta>2 g T)) (1 - \<beta>2 ^ T)\<rparr>)"

subsection \<open>Dropout cell\<close>

text \<open>
  \<^verbatim>\<open>training = tf.placeholder_with_default(False, shape=(), name='training')
dropout_rate = 0.5  # == 1 - keep_prob
X_drop = tf.layers.dropout(X, dropout_rate, training=training)
with tf.name_scope("dnn"):
    hidden1 = tf.layers.dense(X_drop, n_hidden1, activation=tf.nn.relu, name="hidden1")
    hidden1_drop = tf.layers.dropout(hidden1, dropout_rate, training=training)
    hidden2 = tf.layers.dense(hidden1_drop, n_hidden2, activation=tf.nn.relu, name="hidden2")
    hidden2_drop = tf.layers.dropout(hidden2, dropout_rate, training=training)
    logits = tf.layers.dense(hidden2_drop, n_outputs, name="outputs")\<close>

  A placeholder with a default evaluates to the fed value, or to the default when nothing
  is fed. \<open>tf.layers.dropout\<close> returns its input untouched in inference mode; in training
  mode it zeroes the units that the random mask \<open>keep\<close> does not keep and divides the kept
  ones by \<open>1 - rate\<close>. The three dense layers are parameters.
\<close>

definition placeholder_with_default :: "'a \<Rightarrow> 'a option \<Rightarrow> 'a" where
  "placeholder_with_default d fed = (case fed of None \<Rightarrow> d | Some v \<Rightarrow> v)"

definition tf_layers_dropout :: "tensor \<Rightarrow> real \<Rightarrow> bool \<Rightarrow> (nat \<Rightarrow> bool) \<Rightarrow> tensor" where
  "tf_layers_dropout inputs rate training keep =
     (if training
      then map (\<lambda>i. if keep i then inputs ! i / (1 - rate) else 0) [0..<length inputs]
      else inputs)"

definition dropout_rate :: real where
  "dropout_rate = 0.5"

record dropout_dnn =
  X_drop :: tensor
  hidden1 :: tensor
  hidden1_drop :: tensor
  hidden2 :: tensor
  hidden2_drop :: tensor
  logits :: tensor

definition dropout_cell ::
  "(tensor \<Rightarrow> tensor) \<Rightarrow> (tensor \<Rightarrow> tensor) \<Rightarrow> (tensor \<Rightarrow> tensor) \<Rightarrow>
   (nat \<Rightarrow> bool) \<Rightarrow> (nat \<Rightarrow> bool) \<Rightarrow> (nat \<Rightarrow> bool) \<Rightarrow> bool option \<Rightarrow> tensor \<Rightarrow> dropout_dnn" where
  "dropout_cell dense1 dense2 dense3 keep0 keep1 keep2 fed X =
     (let training = placeholder_with_default False fed;
          x_drop = tf_layers_dropout X dropout_rate training keep0;
          h1 = dense1 x_drop;
          h1_drop = tf_layers_dropout h1 dropout_rate training keep1;
          h2 = dense2 h1_drop;
          h2_drop = tf_layers_dropout h2 dropout_rate training keep2
      in \<lparr>X_drop = x_drop, hidden1 = h1, hidden1_drop = h1_drop,
          hidden2 = h2, hidden2_drop = h2_drop, logits = dense3 h2_drop\<rparr>)"

section \<open>Properties\<close>

subsection \<open>\<open>reset_graph\<close>\<close>

lemma reset_graph_valid_seed:
  assumes "0 \<le> k" and "k \<le> 4294967295"
  shows "reset_graph init_by_seed (Some (IntSeed k)) w =
     (None, w\<lparr>default_graph := \<lparr>graph_ops = [], graph_seed = Some k\<rparr>,
              np_random := init_by_seed k\<rparr>)"
  using assms
  by (simp add: reset_graph_def np_random_seed_def tf_set_random_seed_def
      tf_reset_default_graph_def)

lemma reset_graph_omitted:
  "reset_graph init_by_seed None w = reset_graph init_by_seed (Some (IntSeed 42)) w"
  by (simp add: reset_graph_def)

text \<open>
  C9, as the claim states it: for every seed value, two runs that call \<open>reset_graph\<close>
  with that seed draw the same numbers afterwards. With the seed \<open>-1\<close> the call resets
  and seeds the graph and then fails in \<open>np.random.seed\<close> with \<open>ValueError\<close>: two runs
  whose NumPy generators were in the states 5 and 6 are left in those states, and their
  draws differ. With the seed \<open>None\<close> NumPy is seeded from the operating system, and two
  runs that get different entropy are left in different states.
\<close>

theorem reset_graph_negative_seed_counterexample:
  "reset_graph (\<lambda>k. k + 1) (Some (IntSeed (- 1)))
       \<lparr>default_graph = \<lparr>graph_ops = [], graph_seed = None\<rparr>, np_random = 5, os_entropy = 0\<rparr>
     = (Some ValueError,
        \<lparr>default_graph = \<lparr>graph_ops = [], graph_seed = Some (- 1)\<rparr>, np_random = 5,
         os_entropy = 0\<rparr>)
   \<and> reset_graph (\<lambda>k. k + 1) (Some (IntSeed (- 1)))
       \<lparr>default_graph = \<lparr>graph_ops = [], graph_seed = None\<rparr>, np_random = 6, os_entropy = 0\<rparr>
     = (Some ValueError,
        \<lparr>default_graph = \<lparr>graph_ops = [], graph_seed = Some (- 1)\<rparr>, np_random = 6,
         os_entropy = 0\<rparr>)
   \<and> np_draws (\<lambda>r. (real_of_int r, r + 1)) 2 5 \<noteq> np_draws (\<lambda>r. (real_of_int r, r + 1)) 2 6
   \<and> np_random (snd (reset_graph (\<lambda>k. k + 1) (Some NoneSeed)
       \<lparr>default_graph = \<lparr>graph_ops = [], graph_seed = None\<rparr>, np_random = 5, os_entropy = 7\<rparr>))
     = 7
   \<and> np_random (snd (reset_graph (\<lambda>k. k + 1) (Some NoneSeed)
       \<lparr>default_graph = \<lparr>graph_ops = [], graph_seed = None\<rparr>, np_random = 5, os_entropy = 8\<rparr>))
     = 8"
  by (simp add: reset_graph_def np_random_seed_def tf_set_random_seed_def
      tf_reset_default_graph_def numeral_2_eq_2)

text \<open>
  C9, amended. For every integer seed from 0 to \<open>2\<^sup>3\<^sup>2 - 1\<close>, and for a call without
  argument, which uses 42, \<open>reset_graph\<close> completes, leaves an empty default graph whose
  graph-level seed is that seed and a NumPy generator initialised from that same seed.
  Default graph and generator after the call do not depend on the state before it, so two
  runs agree on them, on every list of later NumPy draws, and on anything else \<open>observe\<close>
  that is computed from them.
\<close>

theorem reset_graph_deterministic:
  assumes "seed_arg = None \<or> (\<exists>k. seed_arg = Some (IntSeed k) \<and> 0 \<le> k \<and> k \<le> 4294967295)"
  shows "fst (reset_graph init_by_seed seed_arg w\<^sub>1) = None
   \<and> fst (reset_graph init_by_seed seed_arg w\<^sub>2) = None
   \<and> default_graph (snd (reset_graph init_by_seed seed_arg w\<^sub>1))
       = default_graph (snd (reset_graph init_by_seed seed_arg w\<^sub>2))
   \<and> np_random (snd (reset_graph init_by_seed seed_arg w\<^sub>1))
       = np_random (snd (reset_graph init_by_seed seed_arg w\<^sub>2))
   \<and> graph_ops (default_graph (snd (reset_graph init_by_seed seed_arg w\<^sub>1))) = []
   \<and> graph_seed (default_graph (snd (reset_graph init_by_seed seed_arg w\<^sub>1)))
       = Some (case seed_arg of Some (IntSeed k) \<Rightarrow> k | _ \<Rightarrow> 42)
   \<and> np_random (snd (reset_graph init_by_seed seed_arg w\<^sub>1))
       = init_by_seed (case seed_arg of Some (IntSeed k) \<Rightarrow> k | _ \<Rightarrow> 42)
   \<and> np_draws gen n (np_random (snd (reset_graph init_by_seed seed_arg w\<^sub>1)))
       = np_draws gen n (np_random (snd (reset_graph init_by_seed seed_arg w\<^sub>2)))
   \<and> observe (default_graph (snd (reset_graph init_by_seed seed_arg w\<^sub>1)))
         (np_random (snd (reset_graph init_by_seed seed_arg w\<^sub>1)))
       = observe (default_graph (snd (reset_graph init_by_seed seed_arg w\<^sub>2)))
           (np_random (snd (reset_graph init_by_seed seed_arg w\<^sub>2)))"
proof -
  obtain k where k: "0 \<le> k" "k \<le> 4294967295"
    and eq: "\<And>w. reset_graph init_by_seed seed_arg w = reset_graph init_by_seed (Some (IntSeed k)) w"
    and sel: "(case seed_arg of Some (IntSeed k) \<Rightarrow> k | _ \<Rightarrow> 42) = k"
  proof (cases seed_arg)
    case None
    show ?thesis
      by (rule that [of 42]) (simp_all add: None reset_graph_omitted)
  next
    case (Some s)
    with assms obtain k where "seed_arg = Some (IntSeed k)" "0 \<le> k" "k \<le> 4294967295" by auto
    then show ?thesis by (intro that [of k]) simp_all
  qed
  show ?thesis
    unfolding eq sel by (simp add: reset_graph_valid_seed [OF k])
qed

theorem reset_graph_deterministic_witness:
  "fst (reset_graph (\<lambda>k. k + 1) None
       \<lparr>default_graph = \<lparr>graph_ops = [''X''], graph_seed = Some 7\<rparr>, np_random = 0,
        os_entropy = 1\<rparr>) = None
   \<and> np_random (snd (reset_graph (\<lambda>k. k + 1) None
       \<lparr>default_graph = \<lparr>graph_ops = [''X''], graph_seed = Some 7\<rparr>, np_random = 0,
        os_entropy = 1\<rparr>)) = 43
   \<and> np_random (snd (reset_graph (\<lambda>k. k + 1) None
       \<lparr>default_graph = \<lparr>graph_ops = [], graph_seed = None\<rparr>, np_random = 99,
        os_entropy = 2\<rparr>)) = 43"
proof -
  have h: "(None :: seed_value option) = None
      \<or> (\<exists>k. (None :: seed_value option) = Some (IntSeed k) \<and> 0 \<le> k \<and> k \<le> 4294967295)"
    by simp
  show ?thesis
    using reset_graph_deterministic
      [OF h, of "\<lambda>k. k + 1"
        "\<lparr>default_graph = \<lparr>graph_ops = [''X''], graph_seed = Some 7\<rparr>, np_random = 0,
          os_entropy = 1\<rparr>"
        "\<lparr>default_graph = \<lparr>graph_ops = [], graph_seed = None\<rparr>, np_random = 99,
          os_entropy = 2\<rparr>"
        "\<lambda>r. (real_of_int r, r + 1)" 2 "\<lambda>g r. r"]
    by simp
qed

subsection \<open>Xavier initialization\<close>

lemma cube_primitive_deriv:
  fixes c k :: real
  assumes "k \<noteq> 0"
  shows "((\<lambda>x. (x - c) ^ 3 / (3 * k)) has_real_derivative (x - c)\<^sup>2 / k) (at x)"
  using assms by (auto intro!: derivative_eq_intros)

lemma uniform_moment_primitive_deriv:
  assumes "a < b"
  shows "(uniform_moment_primitive a b has_real_derivative (x - (a + b) / 2)\<^sup>2 / (b - a)) (at x)"
proof -
  have k: "b - a \<noteq> 0" using assms by simp
  have eq: "uniform_moment_primitive a b = (\<lambda>x. (x - (a + b) / 2) ^ 3 / (3 * (b - a)))"
    by (rule ext) (simp add: uniform_moment_primitive_def)
  show ?thesis unfolding eq by (rule cube_primitive_deriv [OF k])
qed

lemma uniform_variance_primitive:
  assumes "a < b"
  shows "uniform_moment_primitive a b b - uniform_moment_primitive a b a = uniform_variance a b"
proof -
  define d where "d = b - a"
  have d: "d \<noteq> 0" using assms by (simp add: d_def)
  have hi: "b - (a + b) / 2 = d / 2" by (simp add: d_def field_simps)
  have lo: "a - (a + b) / 2 = - (d / 2)" by (simp add: d_def field_simps)
  have "(d / 2) ^ 3 / (3 * d) - (- (d / 2)) ^ 3 / (3 * d) = d\<^sup>2 / 12"
    using d by (simp add: power3_eq_cube power2_eq_square field_simps)
  then show ?thesis
    unfolding uniform_moment_primitive_def uniform_variance_def hi lo
    by (simp add: d_def)
qed

text \<open>
  C6. For positive \<open>n_inputs\<close> and \<open>n_outputs\<close> both rules are defined, the uniform
  distribution on \<open>[-r, r]\<close> has variance \<open>r\<^sup>2 / 3 = 2 / (n_inputs + n_outputs)\<close>, and that
  is \<open>\<sigma>\<^sup>2\<close> of the normal rule.
\<close>

theorem xavier_variances_agree:
  assumes "0 < n_inputs" and "0 < n_outputs"
  shows "\<exists>r \<sigma>. xavier_r n_inputs n_outputs = Some r
      \<and> xavier_sigma n_inputs n_outputs = Some \<sigma>
      \<and> uniform_variance (- r) r = r\<^sup>2 / 3
      \<and> r\<^sup>2 / 3 = 2 / (real n_inputs + real n_outputs)
      \<and> \<sigma>\<^sup>2 = 2 / (real n_inputs + real n_outputs)"
proof -
  have pos: "0 < real n_inputs + real n_outputs" using assms by simp
  show ?thesis
    using assms pos
    by (simp add: xavier_r_def xavier_sigma_def uniform_variance_def power2_eq_square)
qed

theorem xavier_variances_agree_witness:
  "(0::nat) < 3 \<and> (0::nat) < 3
   \<and> xavier_r 3 3 = Some 1 \<and> uniform_variance (- 1) 1 = 1 / 3
   \<and> (\<exists>\<sigma>. xavier_sigma 3 3 = Some \<sigma> \<and> \<sigma>\<^sup>2 = 1 / 3)"
proof -
  have a: "(0::nat) < 3" by simp
  have r: "xavier_r 3 3 = Some 1" by (simp add: xavier_r_def)
  show ?thesis
    using xavier_variances_agree [OF a a] r
    by (auto simp: uniform_variance_def)
qed

subsection \<open>Rounding to a float format\<close>

lemma round_even_of_int [simp]: "round_even (of_int n) = n"
  by (simp add: round_even_def)

lemma round_even_0 [simp]: "round_even 0 = 0"
  using round_even_of_int [of 0] by simp






lemma ulp_nonneg [simp]: "0 \<le> ulp fmt x"
  by (simp add: ulp_def)

lemma ulp_neq0 [simp]: "ulp fmt x \<noteq> 0"
  by (simp add: ulp_def)

lemma binade_minus [simp]: "binade fmt (- x) = binade fmt x"
  by (simp add: binade_def)

lemma ulp_minus [simp]: "ulp fmt (- x) = ulp fmt x"
  by (simp add: ulp_def)


lemma round_nearest_0 [simp]: "round_nearest fmt 0 = 0"
  by (simp add: round_nearest_def)



















subsection \<open>Leaky ReLU\<close>



















subsection \<open>Batch normalization\<close>

lemma sum_list_centred:
  fixes a c :: real
  shows "sum_list (map (\<lambda>x. (x - a) / c) xs) = (sum_list xs - real (length xs) * a) / c"
  by (induction xs) (simp_all add: algebra_simps add_divide_distrib diff_divide_distrib)

lemma sum_list_squares_scaled:
  fixes a c :: real
  shows "sum_list (map (\<lambda>x. ((x - a) / c)\<^sup>2) xs) = sum_list (map (\<lambda>x. (x - a)\<^sup>2) xs) / c\<^sup>2"
  by (induction xs) (simp_all add: power_divide add_divide_distrib)

lemma sigma2_B_nonneg: "sigma2_B xs = Some v \<Longrightarrow> 0 \<le> v"
  by (auto simp: sigma2_B_def mu_B_def split: if_splits
      intro!: divide_nonneg_nonneg sum_list_nonneg)

text \<open>
  C2, as the claim states it: every non-empty batch has normalized values with mean 0.
  The batch \<open>[1]\<close> with \<open>\<epsilon> = 0\<close> has mean 1 and variance 0, so step 3 divides by
  \<open>sqrt 0\<close> and there are no normalized values.
\<close>

theorem x_hat_constant_batch_undefined:
  "mu_B [1] = Some 1 \<and> sigma2_B [1] = Some 0 \<and> x_hat 0 [1] = None"
  by (simp add: x_hat_def sigma2_B_def mu_B_def)

text \<open>
  C2, amended. For every non-empty batch and every \<open>\<epsilon>\<close> with \<open>\<sigma>\<^sub>B\<^sup>2 + \<epsilon> > 0\<close> (every
  \<open>\<epsilon> > 0\<close>, by \<open>sigma2_B_nonneg\<close>), the normalized values exist, are as many as the
  inputs and have batch mean exactly 0; when \<open>\<epsilon> = 0\<close> their batch variance is exactly 1;
  and the output is \<open>\<gamma> x\<hat> + \<beta>\<close> on each of them.
\<close>

theorem batch_norm_spec:
  assumes "xs \<noteq> []" and "sigma2_B xs = Some v" and "0 < v + \<epsilon>"
  shows "\<exists>xh. x_hat \<epsilon> xs = Some xh
      \<and> length xh = length xs
      \<and> mu_B xh = Some 0
      \<and> (\<epsilon> = 0 \<longrightarrow> sigma2_B xh = Some 1)
      \<and> batch_norm \<gamma> \<beta> \<epsilon> xs = Some (map (\<lambda>h. \<gamma> * h + \<beta>) xh)"
proof -
  define \<mu> where "\<mu> = sum_list xs / real (length xs)"
  define c where "c = sqrt (v + \<epsilon>)"
  define xh where "xh = map (\<lambda>x. (x - \<mu>) / c) xs"
  have n: "0 < real (length xs)" using assms(1) by simp
  have mu: "mu_B xs = Some \<mu>" using assms(1) by (simp add: mu_B_def \<mu>_def)
  have v: "v = sum_list (map (\<lambda>x. (x - \<mu>)\<^sup>2) xs) / real (length xs)"
    using assms(2) mu by (simp add: sigma2_B_def)
  have xhat: "x_hat \<epsilon> xs = Some xh"
    using mu assms(2,3) by (simp add: x_hat_def xh_def c_def)
  have len: "length xh = length xs" by (simp add: xh_def)
  have ne: "xh \<noteq> []" using assms(1) by (simp add: xh_def)
  have "sum_list xh = (sum_list xs - real (length xs) * \<mu>) / c"
    unfolding xh_def by (rule sum_list_centred)
  also have "sum_list xs - real (length xs) * \<mu> = 0"
    using n by (simp add: \<mu>_def)
  finally have s0: "sum_list xh = 0" by simp
  have mean: "mu_B xh = Some 0" using ne s0 by (simp add: mu_B_def)
  have var: "sigma2_B xh = Some 1" if "\<epsilon> = 0"
  proof -
    have vpos: "0 < v" using assms(3) that by simp
    have c2: "c\<^sup>2 = v" using vpos that by (simp add: c_def)
    have "sum_list (map (\<lambda>h. (h - 0)\<^sup>2) xh) = sum_list (map (\<lambda>x. (x - \<mu>)\<^sup>2) xs) / c\<^sup>2"
      unfolding xh_def by (simp add: o_def sum_list_squares_scaled)
    also have "\<dots> = (v * real (length xs)) / v"
      using n by (simp add: v [symmetric] c2) (simp add: v)
    also have "\<dots> = real (length xs)" using vpos by simp
    finally have e: "sum_list (map (\<lambda>h. (h - 0)\<^sup>2) xh) / real (length xh) = 1"
      using n by (simp add: len)
    show ?thesis by (simp only: sigma2_B_def mean option.case e)
  qed
  have out: "batch_norm \<gamma> \<beta> \<epsilon> xs = Some (map (\<lambda>h. \<gamma> * h + \<beta>) xh)"
    by (simp add: batch_norm_def xhat)
  show ?thesis using xhat len mean var out by blast
qed

theorem batch_norm_spec_witness:
  "[1, 3] \<noteq> ([] :: tensor) \<and> sigma2_B [1, 3] = Some 1 \<and> (0::real) < 1 + 0
   \<and> x_hat 0 [1, 3] = Some [- 1, 1]
   \<and> mu_B [- 1, 1] = Some 0 \<and> sigma2_B [- 1, 1] = Some 1
   \<and> batch_norm 2 5 0 [1, 3] = Some [3, 7]"
proof -
  have ne: "[1, 3] \<noteq> ([] :: tensor)" by simp
  have v: "sigma2_B [1, 3] = Some 1" by (simp add: sigma2_B_def mu_B_def)
  have pos: "(0::real) < 1 + 0" by simp
  have xh: "x_hat 0 [1, 3] = Some [- 1, 1]"
    by (simp add: x_hat_def sigma2_B_def mu_B_def)
  show ?thesis
    using batch_norm_spec [OF ne v pos, of 2 5] ne v xh by auto
qed

subsection \<open>Gradient clipping\<close>







subsection \<open>Running steps\<close>










subsection \<open>The cells: errors\<close>




















subsection \<open>The cells: the durable store\<close>














subsection \<open>AdaGrad\<close>

lemma adagrad_accumulate_length:
  "length g = length s \<Longrightarrow> length (adagrad_accumulate s g) = length s"
  by (simp add: adagrad_accumulate_def vadd_def otimes_def)

lemma adagrad_accumulate_nth:
  "length g = length s \<Longrightarrow> i < length s \<Longrightarrow>
     adagrad_accumulate s g ! i = s ! i + g ! i * g ! i"
  by (simp add: adagrad_accumulate_def vadd_def otimes_def)

lemma adagrad_run_length:
  "\<forall>g \<in> set gs. length g = length s \<Longrightarrow> length (adagrad_run s gs) = length s"
  by (induction gs arbitrary: s) (simp_all add: adagrad_accumulate_length)

lemma adagrad_run_grows:
  "\<forall>g \<in> set gs. length g = length s \<Longrightarrow> i < length s \<Longrightarrow> s ! i \<le> adagrad_run s gs ! i"
proof (induction gs arbitrary: s)
  case Nil
  show ?case by simp
next
  case (Cons g gs)
  have lg: "length g = length s" using Cons.prems(1) by simp
  have step: "s ! i \<le> adagrad_accumulate s g ! i"
    using lg Cons.prems(2) by (simp add: adagrad_accumulate_nth)
  have "adagrad_accumulate s g ! i \<le> adagrad_run (adagrad_accumulate s g) gs ! i"
    using Cons.prems lg by (intro Cons.IH) (simp_all add: adagrad_accumulate_length)
  with step show ?case by simp
qed

lemma adagrad_run_append:
  "adagrad_run s (gs @ hs) = adagrad_run (adagrad_run s gs) hs"
  by (induction gs arbitrary: s) simp_all

lemma adagrad_run_mono:
  assumes "\<forall>g \<in> set gs. length g = length s" and "i < length s" and "k \<le> l"
  shows "adagrad_run s (take k gs) ! i \<le> adagrad_run s (take l gs) ! i"
proof -
  have split: "take l gs = take k gs @ drop k (take l gs)"
    using assms(3) by (metis append_take_drop_id min.absorb1 take_take)
  have pre: "\<forall>g \<in> set (take k gs). length g = length s"
    using assms(1) by (meson in_set_takeD)
  have len: "length (adagrad_run s (take k gs)) = length s"
    using pre by (rule adagrad_run_length)
  have rest: "\<forall>g \<in> set (drop k (take l gs)). length g = length (adagrad_run s (take k gs))"
    using assms(1) len by (metis in_set_dropD in_set_takeD)
  have "adagrad_run s (take k gs) ! i
      \<le> adagrad_run (adagrad_run s (take k gs)) (drop k (take l gs)) ! i"
    using rest assms(2) len by (intro adagrad_run_grows) simp_all
  then show ?thesis by (metis split adagrad_run_append)
qed

lemma step_size_antimono:
  assumes "0 \<le> \<eta>" and "0 < a + \<epsilon>" and "a \<le> b"
  shows "\<exists>p q. step_size \<eta> \<epsilon> a = Some p \<and> step_size \<eta> \<epsilon> b = Some q \<and> q \<le> p"
proof -
  have b: "0 < b + \<epsilon>" using assms by simp
  have "sqrt (a + \<epsilon>) \<le> sqrt (b + \<epsilon>)" using assms(3) by simp
  moreover have "0 < sqrt (a + \<epsilon>)" using assms(2) by simp
  ultimately have "\<eta> / sqrt (b + \<epsilon>) \<le> \<eta> / sqrt (a + \<epsilon>)"
    using assms(1) by (intro divide_left_mono) simp_all
  then show ?thesis using assms(2) b by (simp add: step_size_def)
qed

lemma sqrt_25: "sqrt 25 = 5"
  using real_sqrt_abs [of 5] by simp

lemma sqrt_9: "sqrt 9 = 3"
  using real_sqrt_abs [of 3] by simp

text \<open>
  C8, as the claim states it: for every starting accumulator the step size
  \<open>\<eta> / sqrt (s + \<epsilon>)\<close> does not increase. From \<open>s\<^sub>0 = [-4]\<close> with \<open>\<epsilon> = 0\<close> and the
  gradient \<open>[2]\<close> the accumulator goes to \<open>[0]\<close>, and the step size is defined neither
  before nor after the update. With a negative \<open>\<eta>\<close> the step size is defined and
  increases: from \<open>s\<^sub>0 = [9]\<close> with the gradient \<open>[4]\<close> it goes from \<open>-1/3\<close> to \<open>-1/5\<close>.
\<close>

theorem adagrad_step_size_counterexample:
  "adagrad_run [- 4] [[2]] = [0]
   \<and> step_size 1 0 ([- 4] ! 0) = None
   \<and> step_size 1 0 (adagrad_run [- 4] [[2]] ! 0) = None
   \<and> adagrad_run [9] [[4]] = [25]
   \<and> step_size (- 1) 0 ([9] ! 0) = Some (- 1 / 3)
   \<and> step_size (- 1) 0 (adagrad_run [9] [[4]] ! 0) = Some (- 1 / 5)
   \<and> \<not> (- 1 / 5 \<le> (- 1 / 3 :: real))"
  by (simp add: adagrad_accumulate_def vadd_def otimes_def step_size_def sqrt_25 sqrt_9)

text \<open>
  C8, amended. For every starting accumulator \<open>s\<^sub>0\<close> and every sequence of gradients of
  its dimension, each component of \<open>s\<close> is nondecreasing across iterations: after \<open>k\<close>
  updates it is at most what it is after \<open>l \<ge> k\<close> updates. When moreover \<open>\<eta> \<ge> 0\<close> and
  \<open>s\<^sub>0 + \<epsilon> > 0\<close> in that component, the step size \<open>\<eta> / sqrt (s + \<epsilon>)\<close> is defined at
  every iteration and nonincreasing.
\<close>

theorem adagrad_spec:
  assumes "\<forall>g \<in> set gs. length g = length s\<^sub>0" and "i < length s\<^sub>0" and "k \<le> l"
  shows "adagrad_run s\<^sub>0 (take k gs) ! i \<le> adagrad_run s\<^sub>0 (take l gs) ! i
    \<and> (0 \<le> \<eta> \<and> 0 < s\<^sub>0 ! i + \<epsilon> \<longrightarrow>
        (\<exists>p q. step_size \<eta> \<epsilon> (adagrad_run s\<^sub>0 (take k gs) ! i) = Some p
             \<and> step_size \<eta> \<epsilon> (adagrad_run s\<^sub>0 (take l gs) ! i) = Some q
             \<and> q \<le> p))"
proof -
  have mono: "adagrad_run s\<^sub>0 (take k gs) ! i \<le> adagrad_run s\<^sub>0 (take l gs) ! i"
    using assms by (rule adagrad_run_mono)
  have base: "s\<^sub>0 ! i \<le> adagrad_run s\<^sub>0 (take k gs) ! i"
    using adagrad_run_mono [OF assms(1,2), of 0 k] by simp
  show ?thesis
  proof (intro conjI impI)
    show "adagrad_run s\<^sub>0 (take k gs) ! i \<le> adagrad_run s\<^sub>0 (take l gs) ! i" by (rule mono)
  next
    assume h: "0 \<le> \<eta> \<and> 0 < s\<^sub>0 ! i + \<epsilon>"
    then have "0 < adagrad_run s\<^sub>0 (take k gs) ! i + \<epsilon>" using base by simp
    with h mono show "\<exists>p q. step_size \<eta> \<epsilon> (adagrad_run s\<^sub>0 (take k gs) ! i) = Some p
             \<and> step_size \<eta> \<epsilon> (adagrad_run s\<^sub>0 (take l gs) ! i) = Some q \<and> q \<le> p"
      by (intro step_size_antimono) simp_all
  qed
qed

theorem adagrad_spec_witness:
  "length [4 :: real] = length [9 :: real] \<and> length [0 :: real] = length [9 :: real]
   \<and> 0 < length [9 :: real] \<and> (1::nat) \<le> 2 \<and> (0::real) \<le> 1 \<and> (0::real) < [9] ! 0 + 0
   \<and> adagrad_run [9] (take 1 [[4], [0]]) ! 0 \<le> adagrad_run [9] (take 2 [[4], [0]]) ! 0
   \<and> step_size 1 0 (adagrad_run [9] (take 1 [[4], [0]]) ! 0) = Some (1 / 5)"
proof -
  have a: "\<forall>g \<in> set [[4], [0 :: real]]. length g = length [9 :: real]" by simp
  have b: "0 < length [9 :: real]" by simp
  have c: "(1::nat) \<le> 2" by simp
  have ev: "adagrad_run [9] (take 1 [[4], [0]]) = [25]"
    by (simp add: adagrad_accumulate_def vadd_def otimes_def)
  show ?thesis
    using adagrad_spec [OF a b c, of 1 0] a ev
    by (simp add: step_size_def sqrt_25)
qed

subsection \<open>Adam\<close>

lemma decay_geometric:
  fixes \<beta> x :: real
  shows "\<beta> * ((1 - \<beta> ^ n) * x) + (1 - \<beta>) * x = (1 - \<beta> ^ Suc n) * x"
  by (simp add: algebra_simps)

text \<open>The identity \<open>m\<^sub>T = (1 - \<beta>\<^sub>1\<^sup>T) g\<close> holds for the moments that steps 1 and 2 build.\<close>

lemma adam_raw_closed_form:
  "adam_raw \<beta>1 \<beta>2 g n =
     \<lparr>adam_m = vscale (1 - \<beta>1 ^ n) g, adam_s = vscale (1 - \<beta>2 ^ n) (otimes g g)\<rparr>"
proof (induction n)
  case 0
  show ?case
    by (simp add: adam_init_def vscale_def otimes_def map_replicate_const [symmetric]
        replicate_length_same list_eq_iff_nth_eq)
next
  case (Suc n)
  show ?case
    by (simp add: Suc vadd_def vscale_def otimes_def list_eq_iff_nth_eq decay_geometric)
qed

lemma pow_lt_one:
  fixes \<beta> :: real
  assumes "0 \<le> \<beta>" "\<beta> < 1" "1 \<le> T"
  shows "1 - \<beta> ^ T \<noteq> 0"
proof -
  have "\<beta> ^ T < 1" using assms by (simp add: power_Suc_less_one power_less_one_iff)
  then show ?thesis by simp
qed

text \<open>
  With the corrected estimates kept apart, they are \<open>g\<close> and \<open>g \<otimes> g\<close> at every
  iteration, for every \<open>\<beta>\<^sub>1, \<beta>\<^sub>2\<close> in \<open>[0, 1)\<close>.
\<close>

lemma adam_hat_unbiased:
  assumes "0 \<le> \<beta>1" "\<beta>1 < 1" "0 \<le> \<beta>2" "\<beta>2 < 1" "1 \<le> T"
  shows "adam_hat \<beta>1 \<beta>2 g T = Some \<lparr>adam_m = g, adam_s = otimes g g\<rparr>"
proof -
  have a: "1 - \<beta>1 ^ T \<noteq> 0" using assms by (intro pow_lt_one) auto
  have b: "1 - \<beta>2 ^ T \<noteq> 0" using assms by (intro pow_lt_one) auto
  show ?thesis
    using a b
    by (simp add: adam_hat_def adam_raw_closed_form vdiv_def vscale_def otimes_def
        list_eq_iff_nth_eq)
qed

text \<open>The rule of the notebook agrees with that at the first iteration.\<close>

lemma adam_first_iteration:
  assumes "0 \<le> \<beta>1" "\<beta>1 < 1" "0 \<le> \<beta>2" "\<beta>2 < 1"
  shows "adam_run \<beta>1 \<beta>2 g 1 = Some \<lparr>adam_m = g, adam_s = otimes g g\<rparr>"
  using assms
  by (simp add: adam_step_def adam_init_def vadd_def vscale_def otimes_def vdiv_def
      list_eq_iff_nth_eq)

text \<open>
  C1. The claim is that, for a constant gradient \<open>g\<close>, \<open>m\<close> after step 3 is \<open>g\<close> and \<open>s\<close>
  after step 4 is \<open>g \<otimes> g\<close> at every iteration \<open>T \<ge> 1\<close>. The rule as the notebook writes
  it stores the corrected values in \<open>m\<close> and \<open>s\<close>, so the second iteration starts from
  \<open>m = g\<close> and corrects it again: with \<open>\<beta>\<^sub>1 = \<beta>\<^sub>2 = 1/2\<close> and \<open>g = [1]\<close> it yields
  \<open>m = [4/3]\<close> and \<open>s = [4/3]\<close> at \<open>T = 2\<close>, where \<open>g = g \<otimes> g = [1]\<close>.
\<close>

theorem adam_second_iteration_overshoots:
  "adam_run (1 / 2) (1 / 2) [1] 2 = Some \<lparr>adam_m = [4 / 3], adam_s = [4 / 3]\<rparr>"
  by (simp add: numeral_2_eq_2 adam_step_def adam_init_def vadd_def vscale_def otimes_def
      vdiv_def)

subsection \<open>Dropout\<close>

text \<open>
  C10. Unless \<open>True\<close> is fed for it, the \<open>training\<close> placeholder is \<open>False\<close> (its default
  when nothing is fed), every \<open>tf.layers.dropout\<close> call of the cell returns its input
  whatever the mask, and the cell computes \<open>X_drop = X\<close>, \<open>hidden1_drop = hidden1\<close>,
  \<open>hidden2_drop = hidden2\<close> and the logits of the plain three-layer network.
\<close>

theorem dropout_default_is_identity:
  assumes "fed \<noteq> Some True"
  shows "placeholder_with_default False fed = False
    \<and> tf_layers_dropout t dropout_rate (placeholder_with_default False fed) keep = t
    \<and> dropout_cell dense1 dense2 dense3 keep0 keep1 keep2 fed X =
        \<lparr>X_drop = X, hidden1 = dense1 X, hidden1_drop = dense1 X,
         hidden2 = dense2 (dense1 X), hidden2_drop = dense2 (dense1 X),
         logits = dense3 (dense2 (dense1 X))\<rparr>"
proof -
  have off: "placeholder_with_default False fed = False"
    using assms by (cases fed) (auto simp: placeholder_with_default_def)
  show ?thesis
    by (simp add: dropout_cell_def off tf_layers_dropout_def Let_def)
qed

theorem dropout_default_is_identity_witness:
  "(None :: bool option) \<noteq> Some True
   \<and> X_drop (dropout_cell (map ((*) 2)) rev id (\<lambda>i. False) (\<lambda>i. False) (\<lambda>i. False) None [1, 2])
       = [1, 2]
   \<and> logits (dropout_cell (map ((*) 2)) rev id (\<lambda>i. False) (\<lambda>i. False) (\<lambda>i. False) None [1, 2])
       = [4, 2]"
proof -
  have h: "(None :: bool option) \<noteq> Some True" by simp
  show ?thesis
    using dropout_default_is_identity
      [OF h, of "[]" "\<lambda>i. False" "map ((*) 2)" rev id "\<lambda>i. False" "\<lambda>i. False"
         "\<lambda>i. False" "[1, 2]"]
    by simp
qed

text \<open>With \<open>True\<close> fed, dropout is active: units are dropped and the kept ones doubled.\<close>

lemma dropout_active_when_fed_True:
  "tf_layers_dropout [1, 1, 3] dropout_rate (placeholder_with_default False (Some True))
     (\<lambda>i. i \<noteq> 1) = [2, 0, 6]"
  by (simp add: tf_layers_dropout_def placeholder_with_default_def dropout_rate_def upt_rec)

end
